theory Spec2Isabelle
  imports Main "HOL-Library.AList"
begin

section \<open>The history tracker of DataSnap: data model\<close>

text \<open>
  The tracker of \<^verbatim>\<open>history_tracker.py\<close> keeps pandas DataFrames, which are mutable
  objects handled by reference. Several properties of the tracker are about aliasing
  (what a later in-place change of a DataFrame can reach), so DataFrame objects live in
  an explicit heap: a reference is an index into the list of all DataFrame objects made
  so far, and a new object gets the next index. The tracker never inspects a DataFrame;
  it only calls \<^verbatim>\<open>.copy()\<close> on it.
\<close>

datatype cell = NullCell | IntCell int | StrCell string | BoolCell bool

record dataframe =
  columns :: "string list"
  rows :: "cell list list"

definition n_rows :: "dataframe \<Rightarrow> nat" where
  "n_rows df = length (rows df)"

definition n_cols :: "dataframe \<Rightarrow> nat" where
  "n_cols df = length (columns df)"

type_synonym addr = nat

text \<open>
  The two sources of values outside the program: \<^verbatim>\<open>uuid.uuid4()\<close> and
  \<^verbatim>\<open>datetime.now()\<close>. Each is a tape of the values the calls return, in call order;
  the runtime counts the calls made so far.
\<close>

record env =
  uuid4_values :: "nat \<Rightarrow> string"
  now_values :: "nat \<Rightarrow> string"

record runtime =
  heap :: "dataframe list"
  uuid_calls :: nat
  clock_reads :: nat

definition uuid4 :: "env \<Rightarrow> runtime \<Rightarrow> string \<times> runtime" where
  "uuid4 E r = (uuid4_values E (uuid_calls r), r\<lparr>uuid_calls := Suc (uuid_calls r)\<rparr>)"

definition isoformat_now :: "env \<Rightarrow> runtime \<Rightarrow> string \<times> runtime" where
  "isoformat_now E r = (now_values E (clock_reads r), r\<lparr>clock_reads := Suc (clock_reads r)\<rparr>)"

text \<open>
  \<^verbatim>\<open>df.copy()\<close> (a deep copy, the default of pandas): a new object with the content
  of the old one. A reference in a running program is always to an existing object; the
  theorems that read the content of a copy say so (\<open>a < length (heap r)\<close>).
\<close>

definition df_copy :: "addr \<Rightarrow> runtime \<Rightarrow> addr \<times> runtime" where
  "df_copy a r = (length (heap r), r\<lparr>heap := heap r @ [heap r ! a]\<rparr>)"

text \<open>An in-place change of the DataFrame object at \<open>a\<close>, by code outside the tracker.\<close>

definition mutate :: "addr \<Rightarrow> dataframe \<Rightarrow> runtime \<Rightarrow> runtime" where
  "mutate a df r = r\<lparr>heap := (heap r)[a := df]\<rparr>"

text \<open>Code outside the tracker builds a new DataFrame object.\<close>

definition new_frame :: "dataframe \<Rightarrow> runtime \<Rightarrow> addr \<times> runtime" where
  "new_frame df r = (length (heap r), r\<lparr>heap := heap r @ [df]\<rparr>)"

text \<open>
  A history entry is a Python dict with string keys; the values the tracker writes are
  strings. The dict of snapshots maps a snapshot id to a DataFrame reference.
\<close>

type_synonym entry = "(string \<times> string) list"

record history_tracker =
  history :: "entry list"
  snapshots :: "(string \<times> addr) list"

datatype py_error = KeyError string

section \<open>The methods of HistoryTracker\<close>

definition HistoryTracker_init :: history_tracker where
  "HistoryTracker_init = \<lparr>history = [], snapshots = []\<rparr>"

definition log_change ::
  "env \<Rightarrow> string \<Rightarrow> string \<Rightarrow> addr option \<Rightarrow> history_tracker \<Rightarrow> runtime
     \<Rightarrow> string \<times> history_tracker \<times> runtime" where
  "log_change E action description data_snapshot t r =
     (let (eid, r1) = uuid4 E r;
          (ts, r2) = isoformat_now E r1;
          entry = [(''id'', eid), (''timestamp'', ts), (''action'', action),
                   (''description'', description)]
      in case data_snapshot of
           None \<Rightarrow> (eid, t\<lparr>history := history t @ [entry]\<rparr>, r2)
         | Some df \<Rightarrow>
             (let (snapshot_id, r3) = uuid4 E r2;
                  (c, r4) = df_copy df r3
              in (eid,
                  t\<lparr>snapshots := AList.update snapshot_id c (snapshots t),
                    history := history t @ [AList.update ''snapshot_id'' snapshot_id entry]\<rparr>,
                  r4)))"

definition get_history :: "history_tracker \<Rightarrow> entry list" where
  "get_history t = history t"

definition get_snapshot :: "string \<Rightarrow> history_tracker \<Rightarrow> addr option" where
  "get_snapshot snapshot_id t = map_of (snapshots t) snapshot_id"

text \<open>
  The scan of \<^verbatim>\<open>revert_to_version\<close>: the first entry whose \<^verbatim>\<open>'id'\<close> equals the
  argument. \<^verbatim>\<open>entry['id']\<close> raises KeyError on an entry without that key.
\<close>

fun find_target_entry :: "string \<Rightarrow> entry list \<Rightarrow> py_error + entry option" where
  "find_target_entry history_id [] = Inr None"
| "find_target_entry history_id (e # es) =
     (case map_of e ''id'' of
        None \<Rightarrow> Inl (KeyError ''id'')
      | Some i \<Rightarrow> if i = history_id then Inr (Some e) else find_target_entry history_id es)"

definition revert_to_version ::
  "string \<Rightarrow> history_tracker \<Rightarrow> runtime \<Rightarrow> py_error + (addr option \<times> runtime)" where
  "revert_to_version history_id t r =
     (case find_target_entry history_id (history t) of
        Inl err \<Rightarrow> Inl err
      | Inr None \<Rightarrow> Inr (None, r)
      | Inr (Some target_entry) \<Rightarrow>
          (if target_entry = [] then Inr (None, r)
           else case map_of target_entry ''snapshot_id'' of
             None \<Rightarrow> Inr (None, r)
           | Some sid \<Rightarrow>
               (case get_snapshot sid t of
                  None \<Rightarrow> Inr (None, r)
                | Some snapshot \<Rightarrow> (case df_copy snapshot r of (c, r') \<Rightarrow> Inr (Some c, r')))))"

definition clear_history :: "history_tracker \<Rightarrow> history_tracker" where
  "clear_history t = t\<lparr>history := [], snapshots := []\<rparr>"

text \<open>\<^verbatim>\<open>export_history\<close> returns a dict with the one key \<^verbatim>\<open>'history'\<close>.\<close>

definition export_history :: "history_tracker \<Rightarrow> entry list option" where
  "export_history t = Some (history t)"

text \<open>
  \<^verbatim>\<open>import_history\<close> reads \<^verbatim>\<open>history_data.get('history', [])\<close>: the argument is the
  value under that key, if the key is there.
\<close>

definition import_history :: "entry list option \<Rightarrow> history_tracker \<Rightarrow> history_tracker" where
  "import_history history_data t =
     t\<lparr>history := (case history_data of None \<Rightarrow> [] | Some h \<Rightarrow> h), snapshots := []\<rparr>"

section \<open>The route POST /history/revert\<close>

text \<open>
  The Flask configuration holds the current table and the tracker, either of which may
  be \<^verbatim>\<open>None\<close>. A response is the JSON object and the HTTP status.
\<close>

record app_state =
  rt :: runtime
  MAIN_DF :: "addr option"
  HISTORY_TRACKER :: "history_tracker option"

type_synonym response = "(string \<times> string) list \<times> nat"

definition revert_to_history_version ::
  "env \<Rightarrow> string option \<Rightarrow> app_state \<Rightarrow> py_error + (response \<times> app_state)" where
  "revert_to_history_version E request_id app =
     (case (HISTORY_TRACKER app, MAIN_DF app) of
        (None, _) \<Rightarrow>
          Inr (([(''status'', ''error''), (''message'', ''History or data not available.'')], 404), app)
      | (Some tracker, None) \<Rightarrow>
          Inr (([(''status'', ''error''), (''message'', ''History or data not available.'')], 404), app)
      | (Some tracker, Some df) \<Rightarrow>
          (case request_id of
             None \<Rightarrow>
               Inr (([(''status'', ''error''), (''message'', ''History ID is required.'')], 400), app)
           | Some history_id \<Rightarrow>
               if history_id = [] then
                 Inr (([(''status'', ''error''), (''message'', ''History ID is required.'')], 400), app)
               else
                 (case revert_to_version history_id tracker (rt app) of
                    Inl err \<Rightarrow> Inl err
                  | Inr (None, r1) \<Rightarrow>
                      Inr (([(''status'', ''error''),
                             (''message'', ''History snapshot not found.'')], 404), app\<lparr>rt := r1\<rparr>)
                  | Inr (Some snapshot_df, r1) \<Rightarrow>
                      (case log_change E ''Revert'' ''Reverted to state from an earlier action.''
                              (Some snapshot_df) tracker r1 of
                         (eid, tracker', r2) \<Rightarrow>
                           Inr (([(''status'', ''success''),
                                  (''message'', ''Successfully reverted to the selected state.'')], 200),
                                app\<lparr>rt := r2, MAIN_DF := Some snapshot_df,
                                    HISTORY_TRACKER := Some tracker'\<rparr>)))))"

section \<open>Runs of the tracker\<close>

text \<open>
  What can happen to a tracker and the DataFrame objects around it, one event at a time:
  the tracker's methods, and the code around the tracker building a DataFrame or changing
  one in place.
\<close>

datatype event =
    LogChange string string "addr option"
  | RevertToVersion string
  | ClearHistory
  | NewFrame dataframe
  | Mutate addr dataframe

fun step :: "env \<Rightarrow> event \<Rightarrow> history_tracker \<times> runtime \<Rightarrow> history_tracker \<times> runtime" where
  "step E (LogChange action description ds) (t, r) = snd (log_change E action description ds t r)"
| "step E (RevertToVersion history_id) (t, r) =
     (case revert_to_version history_id t r of Inl err \<Rightarrow> (t, r) | Inr (res, r') \<Rightarrow> (t, r'))"
| "step E ClearHistory (t, r) = (clear_history t, r)"
| "step E (NewFrame df) (t, r) = (t, snd (new_frame df r))"
| "step E (Mutate a df) (t, r) = (t, mutate a df r)"

text \<open>
  An event is allowed when every reference it uses is an existing object, and an in-place
  change is to an object other than the copies the tracker keeps in \<^verbatim>\<open>self.snapshots\<close>
  (no method but \<^verbatim>\<open>get_snapshot\<close> hands those out).
\<close>

fun allowed :: "event \<Rightarrow> history_tracker \<times> runtime \<Rightarrow> bool" where
  "allowed (LogChange action description (Some a)) (t, r) = (a < length (heap r))"
| "allowed (Mutate a df) (t, r) = (a < length (heap r) \<and> a \<notin> snd ` set (snapshots t))"
| "allowed ev (t, r) = True"

fun run :: "env \<Rightarrow> event list \<Rightarrow> history_tracker \<times> runtime \<Rightarrow> history_tracker \<times> runtime" where
  "run E [] s = s"
| "run E (ev # evs) s = run E evs (step E ev s)"

fun admissible :: "env \<Rightarrow> event list \<Rightarrow> history_tracker \<times> runtime \<Rightarrow> bool" where
  "admissible E [] s = True"
| "admissible E (ev # evs) s = (allowed ev s \<and> admissible E evs (step E ev s))"

text \<open>A sequence of \<^verbatim>\<open>log_change\<close> calls; the result lists the ids the calls returned.\<close>

fun log_changes ::
  "env \<Rightarrow> (string \<times> string \<times> addr option) list \<Rightarrow> history_tracker \<Rightarrow> runtime
     \<Rightarrow> string list \<times> history_tracker \<times> runtime" where
  "log_changes E [] t r = ([], t, r)"
| "log_changes E ((action, description, ds) # calls) t r =
     (case log_change E action description ds t r of
        (eid, t1, r1) \<Rightarrow>
          (case log_changes E calls t1 r1 of (eids, t2, r2) \<Rightarrow> (eid # eids, t2, r2)))"

section \<open>Invariants\<close>

text \<open>
  Every id in the ledger and every key of the snapshot dict is a value that
  \<^verbatim>\<open>uuid4\<close> has already returned, and every stored snapshot is an existing object.
\<close>

definition tracker_ok :: "env \<Rightarrow> history_tracker \<Rightarrow> runtime \<Rightarrow> bool" where
  "tracker_ok E t r \<longleftrightarrow>
     (\<forall>e \<in> set (history t). \<exists>k < uuid_calls r. map_of e ''id'' = Some (uuid4_values E k)) \<and>
     (\<forall>p \<in> set (snapshots t). (\<exists>k < uuid_calls r. fst p = uuid4_values E k) \<and>
                                snd p < length (heap r))"

text \<open>
  Every \<^verbatim>\<open>snapshot_id\<close> in the ledger is a key of the snapshot dict, and no key occurs
  twice there.
\<close>

definition refs_resolve :: "history_tracker \<Rightarrow> bool" where
  "refs_resolve t \<longleftrightarrow>
     distinct (map fst (snapshots t)) \<and>
     (\<forall>e \<in> set (history t).
        case map_of e ''snapshot_id'' of
          None \<Rightarrow> True
        | Some sid \<Rightarrow> sid \<in> fst ` set (snapshots t))"

text \<open>
  The tracker holds, under the entry id \<open>eid\<close>, a snapshot with the content \<open>df\<close>.
\<close>

definition holds_snapshot :: "history_tracker \<Rightarrow> runtime \<Rightarrow> string \<Rightarrow> dataframe \<Rightarrow> bool" where
  "holds_snapshot t r eid df \<longleftrightarrow>
     (case find_target_entry eid (history t) of
        Inr (Some e) \<Rightarrow>
          (case map_of e ''snapshot_id'' of
             Some sid \<Rightarrow>
               (case get_snapshot sid t of
                  Some c \<Rightarrow> c < length (heap r) \<and> heap r ! c = df
                | None \<Rightarrow> False)
           | None \<Rightarrow> False)
      | _ \<Rightarrow> False)"

section \<open>Example values\<close>

definition example_env :: env where
  "example_env =
     \<lparr>uuid4_values = (\<lambda>n. replicate (Suc n) (CHR ''u'')),
      now_values = (\<lambda>n. ''2024-01-01T00:00:00'')\<rparr>"

definition small_df :: dataframe where
  "small_df = \<lparr>columns = [''a''], rows = [[IntCell 1]]\<rparr>"

definition big_df :: dataframe where
  "big_df = \<lparr>columns = [''a'', ''b'', ''c''],
              rows = [[IntCell 1, StrCell ''x'', BoolCell True],
                      [IntCell 2, StrCell ''y'', NullCell]]\<rparr>"

definition example_rt :: "dataframe \<Rightarrow> runtime" where
  "example_rt df = \<lparr>heap = [df], uuid_calls = 0, clock_reads = 0\<rparr>"

text \<open>A tracker that has logged one change, with the table at address 0.\<close>

definition logged_once :: "dataframe \<Rightarrow> history_tracker \<times> runtime" where
  "logged_once df =
     snd (log_change example_env ''Upload'' ''Loaded a file'' (Some 0)
            HistoryTracker_init (example_rt df))"

definition example_app :: "dataframe \<Rightarrow> app_state" where
  "example_app df =
     \<lparr>rt = snd (logged_once df), MAIN_DF = Some 0,
      HISTORY_TRACKER = Some (fst (logged_once df))\<rparr>"

section \<open>Basic facts about the methods\<close>

text \<open>
  \<^verbatim>\<open>log_change\<close> written out for its two cases, the scan of the ledger on an appended
  list, and what a result of \<^verbatim>\<open>revert_to_version\<close> and a success of the route say
  about the state before.
\<close>

lemma log_change_None:
  "log_change E a d None t r =
     (uuid4_values E (uuid_calls r),
      t\<lparr>history := history t @
           [[(''id'', uuid4_values E (uuid_calls r)), (''timestamp'', now_values E (clock_reads r)),
             (''action'', a), (''description'', d)]]\<rparr>,
      r\<lparr>uuid_calls := Suc (uuid_calls r), clock_reads := Suc (clock_reads r)\<rparr>)"
  by (simp add: log_change_def uuid4_def isoformat_now_def)

lemma log_change_Some:
  "log_change E a d (Some x) t r =
     (uuid4_values E (uuid_calls r),
      t\<lparr>snapshots := AList.update (uuid4_values E (Suc (uuid_calls r))) (length (heap r)) (snapshots t),
        history := history t @
           [[(''id'', uuid4_values E (uuid_calls r)), (''timestamp'', now_values E (clock_reads r)),
             (''action'', a), (''description'', d),
             (''snapshot_id'', uuid4_values E (Suc (uuid_calls r)))]]\<rparr>,
      r\<lparr>uuid_calls := Suc (Suc (uuid_calls r)), clock_reads := Suc (clock_reads r),
        heap := heap r @ [heap r ! x]\<rparr>)"
  by (simp add: log_change_def uuid4_def isoformat_now_def df_copy_def)

lemma log_change_facts:
  assumes "log_change E a d ds t r = (eid, t1, r1)"
  shows "eid = uuid4_values E (uuid_calls r) \<and> uuid_calls r < uuid_calls r1 \<and>
         (\<exists>e. history t1 = history t @ [e] \<and> map_of e ''id'' = Some eid \<and>
              map_of e ''action'' = Some a \<and> map_of e ''description'' = Some d)"
  using assms by (cases ds) (auto simp: log_change_None log_change_Some)

lemma find_target_entry_find:
  "\<forall>e \<in> set h. map_of e ''id'' \<noteq> None \<Longrightarrow>
     find_target_entry hid h = Inr (List.find (\<lambda>e. map_of e ''id'' = Some hid) h)"
  by (induction h) auto

lemma find_target_entry_append_found:
  "find_target_entry hid h = Inr (Some e) \<Longrightarrow> find_target_entry hid (h @ h') = Inr (Some e)"
  by (induction h) (auto split: option.splits if_splits)

lemma find_target_entry_append_fresh:
  "\<forall>e \<in> set h. \<exists>i. map_of e ''id'' = Some i \<and> i \<noteq> hid \<Longrightarrow>
     find_target_entry hid (h @ h') = find_target_entry hid h'"
  by (induction h) auto

lemma revert_to_version_result:
  "revert_to_version hid t r = Inr (res, r') \<Longrightarrow>
     (res = None \<and> r' = r) \<or>
     (\<exists>a. res = Some (length (heap r)) \<and> r' = r\<lparr>heap := heap r @ [heap r ! a]\<rparr>)"
  by (auto simp: revert_to_version_def df_copy_def split: sum.splits option.splits if_splits)

lemma revert_to_version_Some:
  "revert_to_version hid t r = Inr (Some c, r1) \<Longrightarrow>
     \<exists>e sid a. find_target_entry hid (history t) = Inr (Some e) \<and> e \<noteq> [] \<and>
       map_of e ''snapshot_id'' = Some sid \<and> map_of (snapshots t) sid = Some a \<and>
       c = length (heap r) \<and> r1 = r\<lparr>heap := heap r @ [heap r ! a]\<rparr>"
  by (auto simp: revert_to_version_def df_copy_def get_snapshot_def
           split: sum.splits option.splits if_splits)

lemma route_successD:
  assumes "revert_to_history_version E request_id app = Inr ((body, 200), app')"
  shows "\<exists>t df hid c r1 eid t1 r2.
           HISTORY_TRACKER app = Some t \<and> MAIN_DF app = Some df \<and> request_id = Some hid \<and>
           revert_to_version hid t (rt app) = Inr (Some c, r1) \<and>
           log_change E ''Revert'' ''Reverted to state from an earlier action.'' (Some c) t r1 =
             (eid, t1, r2) \<and>
           app' = app\<lparr>rt := r2, MAIN_DF := Some c, HISTORY_TRACKER := Some t1\<rparr>"
  using assms
  by (auto simp: revert_to_history_version_def
           split: option.splits if_splits sum.splits prod.splits)

lemma route_successI:
  assumes "HISTORY_TRACKER app = Some t" and "MAIN_DF app = Some df" and "hid \<noteq> []"
    and "revert_to_version hid t (rt app) = Inr (Some c, r1)"
    and "log_change E ''Revert'' ''Reverted to state from an earlier action.'' (Some c) t r1 =
           (eid, t1, r2)"
  shows "revert_to_history_version E (Some hid) app =
           Inr (([(''status'', ''success''),
                  (''message'', ''Successfully reverted to the selected state.'')], 200),
                app\<lparr>rt := r2, MAIN_DF := Some c, HISTORY_TRACKER := Some t1\<rparr>)"
  using assms by (simp add: revert_to_history_version_def)

lemma set_update_cases: "p \<in> set (AList.update k v al) \<Longrightarrow> p = (k, v) \<or> p \<in> set al"
  by (induction al) (auto split: if_splits)

text \<open>
  The example tape of uuids never repeats a value; the tracker after one logged change.
\<close>

lemma example_uuid4_inj: "inj (uuid4_values example_env)"
proof (rule injI)
  fix m n assume "uuid4_values example_env m = uuid4_values example_env n"
  then have "length (replicate (Suc m) (CHR ''u'')) = length (replicate (Suc n) (CHR ''u''))"
    by (simp add: example_env_def)
  then show "m = n" by simp
qed

lemma logged_once_eq:
  "logged_once df =
     (\<lparr>history = [[(''id'', ''u''), (''timestamp'', ''2024-01-01T00:00:00''),
                    (''action'', ''Upload''), (''description'', ''Loaded a file''),
                    (''snapshot_id'', ''uu'')]],
       snapshots = [(''uu'', 1)]\<rparr>,
      \<lparr>heap = [df, df], uuid_calls = 2, clock_reads = 1\<rparr>)"
  by (simp add: logged_once_def log_change_Some HistoryTracker_init_def example_rt_def
        example_env_def numeral_2_eq_2)

lemma logged_once_log_change:
  "log_change example_env ''Upload'' ''Loaded a file'' (Some 0) HistoryTracker_init (example_rt df) =
     (''u'', fst (logged_once df), snd (logged_once df))"
  by (simp add: logged_once_def log_change_Some example_env_def example_rt_def)

section \<open>The invariants along a run\<close>

text \<open>
  \<open>tracker_ok\<close> holds for a new tracker and after every event, so in every state that a
  run reaches from a new tracker.
\<close>

lemma tracker_ok_init: "tracker_ok E HistoryTracker_init r"
  by (simp add: tracker_ok_def HistoryTracker_init_def)

lemma tracker_ok_mono:
  assumes "tracker_ok E t r" and "uuid_calls r \<le> uuid_calls r'"
    and "length (heap r) \<le> length (heap r')"
  shows "tracker_ok E t r'"
  unfolding tracker_ok_def
proof (rule conjI; rule ballI)
  fix e assume "e \<in> set (history t)"
  with assms(1) obtain k where "k < uuid_calls r" "map_of e ''id'' = Some (uuid4_values E k)"
    by (auto simp: tracker_ok_def)
  with assms(2) show "\<exists>k<uuid_calls r'. map_of e ''id'' = Some (uuid4_values E k)"
    by (intro exI [of _ k]) simp
next
  fix p assume "p \<in> set (snapshots t)"
  with assms(1) obtain k where "k < uuid_calls r" "fst p = uuid4_values E k"
    "snd p < length (heap r)"
    by (auto simp: tracker_ok_def)
  with assms(2,3) show "(\<exists>k<uuid_calls r'. fst p = uuid4_values E k) \<and>
      snd p < length (heap r')"
    by (auto intro: exI [of _ k])
qed

lemma tracker_ok_log_change:
  assumes "tracker_ok E t r" and "log_change E a d ds t r = (eid, t', r')"
  shows "tracker_ok E t' r'"
proof (cases ds)
  case None
  let ?r = "r\<lparr>uuid_calls := Suc (uuid_calls r), clock_reads := Suc (clock_reads r)\<rparr>"
  from assms(1) have ok: "tracker_ok E t ?r" by (rule tracker_ok_mono) simp_all
  from None assms(2) have t': "t' = t\<lparr>history := history t @
           [[(''id'', uuid4_values E (uuid_calls r)), (''timestamp'', now_values E (clock_reads r)),
             (''action'', a), (''description'', d)]]\<rparr>" and r': "r' = ?r"
    by (auto simp: log_change_None)
  from ok show ?thesis unfolding t' r' tracker_ok_def
    by (auto intro: exI [of _ "uuid_calls r"])
next
  case (Some x)
  let ?r = "r\<lparr>uuid_calls := Suc (Suc (uuid_calls r)), clock_reads := Suc (clock_reads r),
        heap := heap r @ [heap r ! x]\<rparr>"
  from assms(1) have ok: "tracker_ok E t ?r" by (rule tracker_ok_mono) simp_all
  from Some assms(2) have t': "t' = t\<lparr>snapshots :=
          AList.update (uuid4_values E (Suc (uuid_calls r))) (length (heap r)) (snapshots t),
        history := history t @
           [[(''id'', uuid4_values E (uuid_calls r)), (''timestamp'', now_values E (clock_reads r)),
             (''action'', a), (''description'', d),
             (''snapshot_id'', uuid4_values E (Suc (uuid_calls r)))]]\<rparr>" and r': "r' = ?r"
    by (auto simp: log_change_Some)
  show ?thesis unfolding tracker_ok_def
  proof (rule conjI; rule ballI)
    fix e assume "e \<in> set (history t')"
    then consider "e \<in> set (history t)" | "map_of e ''id'' = Some (uuid4_values E (uuid_calls r))"
      by (auto simp: t')
    then show "\<exists>k<uuid_calls r'. map_of e ''id'' = Some (uuid4_values E k)"
    proof cases
      case 1
      with ok show ?thesis by (simp add: tracker_ok_def r')
    next
      case 2
      then show ?thesis by (intro exI [of _ "uuid_calls r"]) (simp add: r')
    qed
  next
    fix p assume "p \<in> set (snapshots t')"
    then consider "p \<in> set (snapshots t)"
      | "p = (uuid4_values E (Suc (uuid_calls r)), length (heap r))"
      by (auto simp: t' dest: set_update_cases)
    then show "(\<exists>k<uuid_calls r'. fst p = uuid4_values E k) \<and> snd p < length (heap r')"
    proof cases
      case 1
      with ok show ?thesis by (simp add: tracker_ok_def r')
    next
      case 2
      then show ?thesis by (simp add: r') (intro exI [of _ "Suc (uuid_calls r)"], simp)
    qed
  qed
qed

lemma tracker_ok_step:
  assumes "tracker_ok E t r" and "step E ev (t, r) = (t', r')"
  shows "tracker_ok E t' r'"
proof (cases ev)
  case (LogChange a d ds)
  with assms(2) have "log_change E a d ds t r = (fst (log_change E a d ds t r), t', r')"
    by (cases "log_change E a d ds t r") simp
  with assms(1) show ?thesis by (rule tracker_ok_log_change)
next
  case (RevertToVersion hid)
  show ?thesis
  proof (cases "revert_to_version hid t r")
    case (Inl err)
    with RevertToVersion assms show ?thesis by simp
  next
    case (Inr p)
    obtain res r1 where p: "p = (res, r1)" by (cases p)
    with Inr RevertToVersion assms(2) have eq: "t' = t" "r' = r1" by simp_all
    from Inr p have "length (heap r) \<le> length (heap r1) \<and> uuid_calls r \<le> uuid_calls r1"
      by (auto dest: revert_to_version_result)
    with assms(1) eq show ?thesis by (auto intro: tracker_ok_mono)
  qed
next
  case ClearHistory
  with assms(2) show ?thesis by (auto simp: clear_history_def tracker_ok_def)
next
  case (NewFrame df)
  with assms show ?thesis by (auto simp: new_frame_def intro: tracker_ok_mono)
next
  case (Mutate a df)
  with assms show ?thesis by (auto simp: mutate_def intro: tracker_ok_mono)
qed

lemma tracker_ok_run:
  "tracker_ok E t r \<Longrightarrow> run E evs (t, r) = (t', r') \<Longrightarrow> tracker_ok E t' r'"
proof (induction evs arbitrary: t r)
  case Nil
  then show ?case by simp
next
  case (Cons ev evs)
  obtain t1 r1 where st: "step E ev (t, r) = (t1, r1)" by (cases "step E ev (t, r)")
  from Cons.prems(1) st have "tracker_ok E t1 r1" by (rule tracker_ok_step)
  moreover from Cons.prems(2) st have "run E evs (t1, r1) = (t', r')" by simp
  ultimately show ?case by (rule Cons.IH)
qed

text \<open>
  \<open>refs_resolve\<close> holds for a new tracker and after every event.
\<close>

lemma refs_resolve_init: "refs_resolve HistoryTracker_init"
  by (simp add: refs_resolve_def HistoryTracker_init_def)

lemma refs_resolve_alt:
  "refs_resolve t \<longleftrightarrow>
     distinct (map fst (snapshots t)) \<and>
     (\<forall>e \<in> set (history t). \<forall>sid. map_of e ''snapshot_id'' = Some sid \<longrightarrow>
        sid \<in> fst ` set (snapshots t))"
  by (auto simp: refs_resolve_def split: option.splits)

lemma refs_resolve_log_change:
  assumes "refs_resolve t"
  shows "refs_resolve (fst (snd (log_change E a d ds t r)))"
proof (cases ds)
  case None
  with assms show ?thesis by (auto simp: refs_resolve_alt log_change_None)
next
  case (Some x)
  with assms show ?thesis
    by (auto simp: refs_resolve_alt log_change_Some distinct_update dom_update)
qed

lemma refs_resolve_step: "refs_resolve (fst s) \<Longrightarrow> refs_resolve (fst (step E ev s))"
proof (cases s)
  case (Pair t r)
  assume "refs_resolve (fst s)"
  with Pair have t: "refs_resolve t" by simp
  show ?thesis
  proof (cases ev)
    case (LogChange a d ds)
    with Pair refs_resolve_log_change [OF t, of E a d ds r] show ?thesis by simp
  next
    case (RevertToVersion hid)
    with Pair t show ?thesis by (simp split: sum.splits prod.splits)
  next
    case ClearHistory
    with Pair show ?thesis by (simp add: clear_history_def refs_resolve_def)
  next
    case (NewFrame df)
    with Pair t show ?thesis by simp
  next
    case (Mutate a df)
    with Pair t show ?thesis by simp
  qed
qed

text \<open>
  \<open>holds_snapshot\<close>: set up by \<^verbatim>\<open>log_change\<close> with a table, kept by every allowed
  event other than \<^verbatim>\<open>clear_history\<close>, and enough for \<^verbatim>\<open>revert_to_version\<close> to return
  a copy with that content. The uuid values must be pairwise distinct: the scan takes the
  first entry with the id, and a later snapshot under the same key would replace the
  stored one.
\<close>

lemma holds_snapshotD:
  "holds_snapshot t r eid df \<Longrightarrow>
     \<exists>e sid c. find_target_entry eid (history t) = Inr (Some e) \<and>
       map_of e ''snapshot_id'' = Some sid \<and> map_of (snapshots t) sid = Some c \<and>
       c < length (heap r) \<and> heap r ! c = df"
  by (auto simp: holds_snapshot_def get_snapshot_def split: sum.splits option.splits)

lemma holds_snapshotI:
  "find_target_entry eid (history t) = Inr (Some e) \<Longrightarrow>
   map_of e ''snapshot_id'' = Some sid \<Longrightarrow> map_of (snapshots t) sid = Some c \<Longrightarrow>
   c < length (heap r) \<Longrightarrow> heap r ! c = df \<Longrightarrow> holds_snapshot t r eid df"
  by (simp add: holds_snapshot_def get_snapshot_def)

lemma holds_snapshot_revert:
  assumes "holds_snapshot t r eid df"
  shows "revert_to_version eid t r = Inr (Some (length (heap r)), r\<lparr>heap := heap r @ [df]\<rparr>)"
proof -
  from holds_snapshotD [OF assms] obtain e sid c where
    h: "find_target_entry eid (history t) = Inr (Some e)" "map_of e ''snapshot_id'' = Some sid"
       "map_of (snapshots t) sid = Some c" "heap r ! c = df" by blast
  from h(2) have "e \<noteq> []" by auto
  with h show ?thesis by (simp add: revert_to_version_def get_snapshot_def df_copy_def)
qed

lemma holds_snapshot_after_log_change:
  assumes "inj (uuid4_values E)" and "tracker_ok E t r" and "x < length (heap r)"
    and "log_change E a d (Some x) t r = (eid, t', r')"
  shows "holds_snapshot t' r' eid (heap r ! x)"
proof -
  let ?e = "[(''id'', uuid4_values E (uuid_calls r)), (''timestamp'', now_values E (clock_reads r)),
             (''action'', a), (''description'', d),
             (''snapshot_id'', uuid4_values E (Suc (uuid_calls r)))]"
  from assms(4) have eid: "eid = uuid4_values E (uuid_calls r)"
    and h: "history t' = history t @ [?e]"
    and s: "snapshots t' =
          AList.update (uuid4_values E (Suc (uuid_calls r))) (length (heap r)) (snapshots t)"
    and r': "heap r' = heap r @ [heap r ! x]"
    by (auto simp: log_change_Some)
  have "\<forall>e \<in> set (history t). \<exists>i. map_of e ''id'' = Some i \<and> i \<noteq> eid"
  proof
    fix e assume "e \<in> set (history t)"
    with assms(2) obtain k where k: "k < uuid_calls r" "map_of e ''id'' = Some (uuid4_values E k)"
      by (auto simp: tracker_ok_def)
    from k(1) assms(1) have "uuid4_values E k \<noteq> uuid4_values E (uuid_calls r)"
      by (auto dest: injD)
    with k(2) eid show "\<exists>i. map_of e ''id'' = Some i \<and> i \<noteq> eid" by simp
  qed
  then have "find_target_entry eid (history t') = find_target_entry eid [?e]"
    unfolding h by (rule find_target_entry_append_fresh)
  then have f: "find_target_entry eid (history t') = Inr (Some ?e)" by (simp add: eid)
  show ?thesis
    by (rule holds_snapshotI [OF f, where sid = "uuid4_values E (Suc (uuid_calls r))"
          and c = "length (heap r)"])
       (simp_all add: s r' update_conv')
qed

lemma holds_snapshot_step:
  assumes "inj (uuid4_values E)" and "tracker_ok E t r" and "holds_snapshot t r eid df"
    and "allowed ev (t, r)" and "ev \<noteq> ClearHistory" and "step E ev (t, r) = (t', r')"
  shows "holds_snapshot t' r' eid df"
proof -
  from holds_snapshotD [OF assms(3)] obtain e sid c where
    f: "find_target_entry eid (history t) = Inr (Some e)" and
    s: "map_of e ''snapshot_id'' = Some sid" and m: "map_of (snapshots t) sid = Some c" and
    c: "c < length (heap r)" and v: "heap r ! c = df" by blast
  from m have mem: "(sid, c) \<in> set (snapshots t)" by (rule map_of_SomeD)
  show ?thesis
  proof (cases ev)
    case (LogChange a d ds)
    show ?thesis
    proof (cases ds)
      case None
      with LogChange assms(6) have "history t' = history t @ [
           [(''id'', uuid4_values E (uuid_calls r)), (''timestamp'', now_values E (clock_reads r)),
             (''action'', a), (''description'', d)]]" "snapshots t' = snapshots t" "heap r' = heap r"
        by (auto simp: log_change_None)
      with f s m c v show ?thesis
        by (intro holds_snapshotI [where e = e and sid = sid and c = c])
           (simp_all add: find_target_entry_append_found)
    next
      case (Some x)
      with LogChange assms(6) have h: "history t' = history t @ [
           [(''id'', uuid4_values E (uuid_calls r)), (''timestamp'', now_values E (clock_reads r)),
             (''action'', a), (''description'', d),
             (''snapshot_id'', uuid4_values E (Suc (uuid_calls r)))]]"
        and s': "snapshots t' =
          AList.update (uuid4_values E (Suc (uuid_calls r))) (length (heap r)) (snapshots t)"
        and r': "heap r' = heap r @ [heap r ! x]"
        by (auto simp: log_change_Some)
      from mem assms(2) obtain k where k: "k < uuid_calls r" "sid = uuid4_values E k"
        by (force simp: tracker_ok_def)
      from k(1) assms(1) have "uuid4_values E k \<noteq> uuid4_values E (Suc (uuid_calls r))"
        by (auto dest: injD)
      with k(2) have ne: "sid \<noteq> uuid4_values E (Suc (uuid_calls r))" by simp
      from f s m c v ne show ?thesis
        by (intro holds_snapshotI [where e = e and sid = sid and c = c])
           (simp_all add: h s' r' find_target_entry_append_found update_conv' nth_append)
    qed
  next
    case (RevertToVersion hid)
    show ?thesis
    proof (cases "revert_to_version hid t r")
      case (Inl err)
      with RevertToVersion assms(3,6) show ?thesis by simp
    next
      case (Inr p)
      obtain res r1 where p: "p = (res, r1)" by (cases p)
      with Inr RevertToVersion assms(6) have eq: "t' = t" "r' = r1" by simp_all
      from Inr p have "r1 = r \<or> (\<exists>a. r1 = r\<lparr>heap := heap r @ [heap r ! a]\<rparr>)"
        by (auto dest: revert_to_version_result)
      with f s m c v eq show ?thesis
        by (intro holds_snapshotI [where e = e and sid = sid and c = c])
           (auto simp: nth_append)
    qed
  next
    case ClearHistory
    with assms(5) show ?thesis by simp
  next
    case (NewFrame df')
    with assms(6) have "t' = t" "heap r' = heap r @ [df']" by (auto simp: new_frame_def)
    with f s m c v show ?thesis
      by (intro holds_snapshotI [where e = e and sid = sid and c = c])
         (simp_all add: nth_append)
  next
    case (Mutate a df')
    with assms(4) mem have "a \<noteq> c" by force
    moreover from Mutate assms(6) have "t' = t" "heap r' = (heap r)[a := df']"
      by (auto simp: mutate_def)
    ultimately show ?thesis using f s m c v
      by (intro holds_snapshotI [where e = e and sid = sid and c = c]) simp_all
  qed
qed

lemma holds_snapshot_run:
  assumes "inj (uuid4_values E)"
  shows "tracker_ok E t r \<Longrightarrow> holds_snapshot t r eid df \<Longrightarrow> admissible E evs (t, r) \<Longrightarrow>
         ClearHistory \<notin> set evs \<Longrightarrow> run E evs (t, r) = (t', r') \<Longrightarrow>
         holds_snapshot t' r' eid df"
proof (induction evs arbitrary: t r)
  case Nil
  then show ?case by simp
next
  case (Cons ev evs)
  obtain t1 r1 where st: "step E ev (t, r) = (t1, r1)" by (cases "step E ev (t, r)")
  from Cons.prems st have al: "allowed ev (t, r)" and ad: "admissible E evs (t1, r1)"
    and nc: "ev \<noteq> ClearHistory" "ClearHistory \<notin> set evs"
    and rn: "run E evs (t1, r1) = (t', r')"
    by auto
  from Cons.prems(1) st have ok: "tracker_ok E t1 r1" by (rule tracker_ok_step)
  from assms Cons.prems(1,2) al nc(1) st have hs: "holds_snapshot t1 r1 eid df"
    by (rule holds_snapshot_step)
  show ?case by (rule Cons.IH [OF ok hs ad nc(2) rn])
qed

text \<open>
  The ids that a sequence of \<^verbatim>\<open>log_change\<close> calls returns are the ids of the entries it
  appends, in order, and they come from later and later positions of the uuid tape.
\<close>

lemma log_changes_history:
  "log_changes E calls t r = (ids, t', r') \<Longrightarrow>
     (\<exists>news. history t' = history t @ news \<and>
        map (\<lambda>e. map_of e ''id'') news = map Some ids \<and>
        map (\<lambda>e. map_of e ''action'') news = map (\<lambda>c. Some (fst c)) calls \<and>
        map (\<lambda>e. map_of e ''description'') news = map (\<lambda>c. Some (fst (snd c))) calls)"
proof (induction calls arbitrary: t r ids t' r')
  case Nil
  then show ?case by simp
next
  case (Cons call calls)
  obtain a d ds where call: "call = (a, d, ds)" by (cases call)
  obtain eid t1 r1 where l: "log_change E a d ds t r = (eid, t1, r1)"
    by (cases "log_change E a d ds t r")
  obtain eids t2 r2 where ls: "log_changes E calls t1 r1 = (eids, t2, r2)"
    by (cases "log_changes E calls t1 r1")
  from Cons.prems call l ls have res: "ids = eid # eids" "t' = t2" "r' = r2" by simp_all
  from log_change_facts [OF l] obtain e where
    e: "history t1 = history t @ [e]" "map_of e ''id'' = Some eid"
       "map_of e ''action'' = Some a" "map_of e ''description'' = Some d" by blast
  from Cons.IH [OF ls] obtain news where
    n: "history t2 = history t1 @ news" "map (\<lambda>e. map_of e ''id'') news = map Some eids"
       "map (\<lambda>e. map_of e ''action'') news = map (\<lambda>c. Some (fst c)) calls"
       "map (\<lambda>e. map_of e ''description'') news = map (\<lambda>c. Some (fst (snd c))) calls"
    by blast
  show ?case
    by (rule exI [of _ "e # news"]) (simp add: res e n call)
qed

lemma log_changes_ids:
  "log_changes E calls t r = (ids, t', r') \<Longrightarrow>
     uuid_calls r \<le> uuid_calls r' \<and>
     set ids \<subseteq> uuid4_values E ` {uuid_calls r ..< uuid_calls r'}"
proof (induction calls arbitrary: t r ids t' r')
  case Nil
  then show ?case by simp
next
  case (Cons call calls)
  obtain a d ds where call: "call = (a, d, ds)" by (cases call)
  obtain eid t1 r1 where l: "log_change E a d ds t r = (eid, t1, r1)"
    by (cases "log_change E a d ds t r")
  obtain eids t2 r2 where ls: "log_changes E calls t1 r1 = (eids, t2, r2)"
    by (cases "log_changes E calls t1 r1")
  from Cons.prems call l ls have res: "ids = eid # eids" "t' = t2" "r' = r2" by simp_all
  from log_change_facts [OF l] have
    e: "eid = uuid4_values E (uuid_calls r)" "uuid_calls r < uuid_calls r1" by simp_all
  from Cons.IH [OF ls] have
    ih: "uuid_calls r1 \<le> uuid_calls r2" "set eids \<subseteq> uuid4_values E ` {uuid_calls r1 ..< uuid_calls r2}"
    by simp_all
  from e ih(1) have "eid \<in> uuid4_values E ` {uuid_calls r ..< uuid_calls r2}" by simp
  moreover from e(2) have "{uuid_calls r1 ..< uuid_calls r2} \<subseteq> {uuid_calls r ..< uuid_calls r2}"
    by auto
  ultimately show ?case using e ih res by auto
qed

lemma log_changes_distinct:
  "inj (uuid4_values E) \<Longrightarrow> log_changes E calls t r = (ids, t', r') \<Longrightarrow> distinct ids"
proof (induction calls arbitrary: t r ids t' r')
  case Nil
  then show ?case by simp
next
  case (Cons call calls)
  obtain a d ds where call: "call = (a, d, ds)" by (cases call)
  obtain eid t1 r1 where l: "log_change E a d ds t r = (eid, t1, r1)"
    by (cases "log_change E a d ds t r")
  obtain eids t2 r2 where ls: "log_changes E calls t1 r1 = (eids, t2, r2)"
    by (cases "log_changes E calls t1 r1")
  from Cons.prems call l ls have res: "ids = eid # eids" by simp
  from log_change_facts [OF l] have
    e: "eid = uuid4_values E (uuid_calls r)" "uuid_calls r < uuid_calls r1" by simp_all
  have "eid \<notin> set eids"
  proof
    assume "eid \<in> set eids"
    with log_changes_ids [OF ls]
    have "eid \<in> uuid4_values E ` {uuid_calls r1 ..< uuid_calls r2}" by blast
    then obtain k where
      k: "uuid_calls r1 \<le> k" "eid = uuid4_values E k" by auto
    with e(1) Cons.prems(1) have "k = uuid_calls r" by (auto dest: injD)
    with k(1) e(2) show False by simp
  qed
  with Cons.IH [OF Cons.prems(1) ls] res show ?case by simp
qed

section \<open>C1: the response of the revert route\<close>

text \<open>
  C1, as the code has it. With a tracker and a current table in the configuration and a
  non-empty entry id: when the id resolves to a snapshot, the route answers with status 200
  and a body of exactly two fields, \<^verbatim>\<open>status\<close> and a fixed \<^verbatim>\<open>message\<close>, and installs
  the copy as the current table; when \<^verbatim>\<open>revert_to_version\<close> returns \<^verbatim>\<open>None\<close>, it
  answers 404 "History snapshot not found." and changes nothing. A request without an id,
  or with an empty one, is answered with 400.
\<close>

theorem revert_route_response:
  assumes "HISTORY_TRACKER app = Some t" and "MAIN_DF app = Some df" and "hid \<noteq> []"
  shows "(\<forall>c r1. revert_to_version hid t (rt app) = Inr (Some c, r1) \<longrightarrow>
            (\<exists>app'. revert_to_history_version E (Some hid) app =
                       Inr (([(''status'', ''success''),
                              (''message'', ''Successfully reverted to the selected state.'')], 200),
                            app') \<and>
                     MAIN_DF app' = Some c)) \<and>
         (\<forall>r1. revert_to_version hid t (rt app) = Inr (None, r1) \<longrightarrow>
            revert_to_history_version E (Some hid) app =
              Inr (([(''status'', ''error''), (''message'', ''History snapshot not found.'')], 404),
                   app)) \<and>
         (\<forall>request_id \<in> {None, Some []}.
            revert_to_history_version E request_id app =
              Inr (([(''status'', ''error''), (''message'', ''History ID is required.'')], 400), app))"
  using assms
  by (auto simp: revert_to_history_version_def log_change_Some dest!: revert_to_version_result)

text \<open>
  The route on a tracker with one logged change: a hit, with the whole state after it, and
  a miss.
\<close>

theorem revert_route_response_witness:
  "revert_to_history_version example_env (Some ''u'') (example_app small_df) =
     Inr (([(''status'', ''success''),
            (''message'', ''Successfully reverted to the selected state.'')], 200),
          \<lparr>rt = \<lparr>heap = [small_df, small_df, small_df, small_df], uuid_calls = 4, clock_reads = 2\<rparr>,
           MAIN_DF = Some 2,
           HISTORY_TRACKER = Some
             \<lparr>history = [[(''id'', ''u''), (''timestamp'', ''2024-01-01T00:00:00''),
                    (''action'', ''Upload''), (''description'', ''Loaded a file''),
                    (''snapshot_id'', ''uu'')],
                   [(''id'', ''uuu''), (''timestamp'', ''2024-01-01T00:00:00''),
                    (''action'', ''Revert''), (''description'', ''Reverted to state from an earlier action.''),
                    (''snapshot_id'', ''uuuu'')]],
              snapshots = [(''uu'', 1), (''uuuu'', 3)]\<rparr>\<rparr>) \<and>
   revert_to_history_version example_env (Some ''zz'') (example_app small_df) =
     Inr (([(''status'', ''error''), (''message'', ''History snapshot not found.'')], 404),
          example_app small_df)"
proof -
  let ?app = "example_app small_df"
  let ?t = "fst (logged_once small_df)"
  have h1: "HISTORY_TRACKER ?app = Some ?t" by (simp add: example_app_def)
  have h2: "MAIN_DF ?app = Some 0" by (simp add: example_app_def)
  have r1: "revert_to_version ''u'' ?t (rt ?app) =
              Inr (Some 2, \<lparr>heap = [small_df, small_df, small_df], uuid_calls = 2, clock_reads = 1\<rparr>)"
    by (simp add: example_app_def logged_once_eq revert_to_version_def get_snapshot_def df_copy_def)
  have r2: "revert_to_version ''zz'' ?t (rt ?app) = Inr (None, rt ?app)"
    by (simp add: example_app_def logged_once_eq revert_to_version_def)
  have n1: "''u'' \<noteq> ([]::string)" and n2: "''zz'' \<noteq> ([]::string)" by simp_all
  from revert_route_response [OF h1 h2 n1, of example_env] r1
  obtain app' where a: "revert_to_history_version example_env (Some ''u'') ?app =
       Inr (([(''status'', ''success''),
              (''message'', ''Successfully reverted to the selected state.'')], 200), app')"
    by blast
  have b: "revert_to_history_version example_env (Some ''zz'') ?app =
     Inr (([(''status'', ''error''), (''message'', ''History snapshot not found.'')], 404), ?app)"
    using revert_route_response [OF h1 h2 n2, of example_env] r2 by blast
  have c: "app' = \<lparr>rt = \<lparr>heap = [small_df, small_df, small_df, small_df], uuid_calls = 4, clock_reads = 2\<rparr>,
           MAIN_DF = Some 2,
           HISTORY_TRACKER = Some
             \<lparr>history = [[(''id'', ''u''), (''timestamp'', ''2024-01-01T00:00:00''),
                    (''action'', ''Upload''), (''description'', ''Loaded a file''),
                    (''snapshot_id'', ''uu'')],
                   [(''id'', ''uuu''), (''timestamp'', ''2024-01-01T00:00:00''),
                    (''action'', ''Revert''), (''description'', ''Reverted to state from an earlier action.''),
                    (''snapshot_id'', ''uuuu'')]],
              snapshots = [(''uu'', 1), (''uuuu'', 3)]\<rparr>\<rparr>"
    using a r1
    by (simp add: revert_to_history_version_def example_app_def logged_once_eq log_change_Some
          example_env_def eval_nat_numeral)
  from a b c show ?thesis by simp
qed

text \<open>
  C1 as stated fails: the success response does not carry the row and column counts.
  Reverting to a table of 1 row and 1 column and reverting to a table of 2 rows and 3
  columns give the same response.
\<close>

theorem revert_response_same_for_different_shapes:
  "map_sum id fst (revert_to_history_version example_env (Some ''u'') (example_app small_df)) =
     Inr ([(''status'', ''success''),
           (''message'', ''Successfully reverted to the selected state.'')], 200) \<and>
   map_sum id fst (revert_to_history_version example_env (Some ''u'') (example_app big_df)) =
     Inr ([(''status'', ''success''),
           (''message'', ''Successfully reverted to the selected state.'')], 200) \<and>
   map_sum id (\<lambda>(resp, app). map_option (\<lambda>a. (n_rows (heap (rt app) ! a), n_cols (heap (rt app) ! a))) (MAIN_DF app))
      (revert_to_history_version example_env (Some ''u'') (example_app small_df)) = Inr (Some (1, 1)) \<and>
   map_sum id (\<lambda>(resp, app). map_option (\<lambda>a. (n_rows (heap (rt app) ! a), n_cols (heap (rt app) ! a))) (MAIN_DF app))
      (revert_to_history_version example_env (Some ''u'') (example_app big_df)) = Inr (Some (2, 3))"
  by (simp add: revert_to_history_version_def example_app_def logged_once_eq log_change_Some
        revert_to_version_def get_snapshot_def df_copy_def n_rows_def n_cols_def
        small_df_def big_df_def)

section \<open>C2: what the caller can reach through a returned table\<close>

text \<open>
  C2, as the code has it. \<^verbatim>\<open>revert_to_version\<close> hands out a new object: after any
  in-place change of the table it returned, a second \<^verbatim>\<open>revert_to_version\<close> for the same
  id returns another new object with the content the first one had when it was returned,
  and every object that \<^verbatim>\<open>get_snapshot\<close> finds in the store has the content it had
  before. The stored snapshots are existing objects.
\<close>

theorem revert_copy_is_independent:
  assumes "\<forall>p \<in> set (snapshots t). snd p < length (heap r)"
    and "revert_to_version history_id t r = Inr (Some c, r1)"
  shows "(\<exists>c2 r2. revert_to_version history_id t (mutate c df' r1) = Inr (Some c2, r2) \<and>
            c2 \<noteq> c \<and> heap r2 ! c2 = heap r1 ! c) \<and>
         (\<forall>sid a. get_snapshot sid t = Some a \<longrightarrow> heap (mutate c df' r1) ! a = heap r ! a)"
proof -
  from assms(2) obtain e sid a where
    f: "find_target_entry history_id (history t) = Inr (Some e)" and ne: "e \<noteq> []" and
    s: "map_of e ''snapshot_id'' = Some sid" and m: "map_of (snapshots t) sid = Some a" and
    c: "c = length (heap r)" and r1: "r1 = r\<lparr>heap := heap r @ [heap r ! a]\<rparr>"
    by (blast dest: revert_to_version_Some)
  from m have "(sid, a) \<in> set (snapshots t)" by (rule map_of_SomeD)
  with assms(1) have a: "a < length (heap r)" by force
  have h: "heap (mutate c df' r1) = heap r @ [df']"
    by (simp add: mutate_def c r1)
  have "revert_to_version history_id t (mutate c df' r1) =
          Inr (Some (Suc (length (heap r))), (mutate c df' r1)\<lparr>heap := heap r @ [df'] @ [heap r ! a]\<rparr>)"
    using f ne s m a by (simp add: revert_to_version_def get_snapshot_def df_copy_def h nth_append)
  moreover have "heap r1 ! c = heap r ! a" by (simp add: r1 c)
  ultimately have first: "\<exists>c2 r2. revert_to_version history_id t (mutate c df' r1) = Inr (Some c2, r2) \<and>
            c2 \<noteq> c \<and> heap r2 ! c2 = heap r1 ! c"
    by (simp add: c nth_append)
  have second: "\<forall>sid a. get_snapshot sid t = Some a \<longrightarrow> heap (mutate c df' r1) ! a = heap r ! a"
  proof (intro allI impI)
    fix sid' a' assume "get_snapshot sid' t = Some a'"
    then have "(sid', a') \<in> set (snapshots t)" by (auto simp: get_snapshot_def dest: map_of_SomeD)
    with assms(1) have "a' < length (heap r)" by force
    then show "heap (mutate c df' r1) ! a' = heap r ! a'" by (simp add: h nth_append)
  qed
  from first second show ?thesis by blast
qed

text \<open>
  One logged change, a revert, the returned table overwritten, a second revert: the
  second copy has the logged content.
\<close>

theorem revert_copy_is_independent_witness:
  "revert_to_version ''u'' (fst (logged_once small_df)) (snd (logged_once small_df)) =
     Inr (Some 2, \<lparr>heap = [small_df, small_df, small_df], uuid_calls = 2, clock_reads = 1\<rparr>) \<and>
   revert_to_version ''u'' (fst (logged_once small_df))
     (mutate 2 big_df \<lparr>heap = [small_df, small_df, small_df], uuid_calls = 2, clock_reads = 1\<rparr>) =
     Inr (Some 3, \<lparr>heap = [small_df, small_df, big_df, small_df], uuid_calls = 2, clock_reads = 1\<rparr>)"
proof -
  let ?t = "fst (logged_once small_df)" and ?r = "snd (logged_once small_df)"
  have h: "\<forall>p \<in> set (snapshots ?t). snd p < length (heap ?r)"
    by (simp add: logged_once_eq)
  have a: "revert_to_version ''u'' ?t ?r =
     Inr (Some 2, \<lparr>heap = [small_df, small_df, small_df], uuid_calls = 2, clock_reads = 1\<rparr>)"
    by (simp add: logged_once_eq revert_to_version_def get_snapshot_def df_copy_def)
  from revert_copy_is_independent [OF h a, of big_df]
  obtain c2 r2 where "revert_to_version ''u'' ?t
       (mutate 2 big_df \<lparr>heap = [small_df, small_df, small_df], uuid_calls = 2, clock_reads = 1\<rparr>) =
       Inr (Some c2, r2)" by blast
  then have "revert_to_version ''u'' ?t
     (mutate 2 big_df \<lparr>heap = [small_df, small_df, small_df], uuid_calls = 2, clock_reads = 1\<rparr>) =
     Inr (Some 3, \<lparr>heap = [small_df, small_df, big_df, small_df], uuid_calls = 2, clock_reads = 1\<rparr>)"
    by (simp add: logged_once_eq revert_to_version_def get_snapshot_def df_copy_def mutate_def
          eval_nat_numeral)
  with a show ?thesis by simp
qed

text \<open>
  C2 as stated fails for \<^verbatim>\<open>get_snapshot\<close>, which returns \<^verbatim>\<open>self.snapshots.get(id)\<close>,
  the stored object itself: the first call returns object 1 with the logged content, the
  caller changes object 1 in place, and the second call returns the changed content.
\<close>

theorem get_snapshot_hands_out_the_stored_object:
  "get_snapshot ''uu'' (fst (logged_once small_df)) = Some 1 \<and>
   map_option (\<lambda>a. heap (snd (logged_once small_df)) ! a)
     (get_snapshot ''uu'' (fst (logged_once small_df))) = Some small_df \<and>
   map_option (\<lambda>a. heap (mutate 1 big_df (snd (logged_once small_df))) ! a)
     (get_snapshot ''uu'' (fst (logged_once small_df))) = Some big_df \<and>
   big_df \<noteq> small_df"
  by (simp add: logged_once_eq get_snapshot_def mutate_def big_df_def small_df_def)

section \<open>C3: snapshot ids in the ledger resolve\<close>

text \<open>
  C3, as the code has it. In every state that a new tracker reaches by \<^verbatim>\<open>log_change\<close>,
  \<^verbatim>\<open>revert_to_version\<close> and \<^verbatim>\<open>clear_history\<close> calls, with any building and changing of
  DataFrames in between, every \<^verbatim>\<open>snapshot_id\<close> in the ledger is a key of the snapshot
  dict, and the dict has each key once. (The events of a run do not include
  \<^verbatim>\<open>import_history\<close>.)
\<close>

theorem reachable_refs_resolve:
  "refs_resolve (fst (run E evs (HistoryTracker_init, r)))"
proof -
  have kept: "refs_resolve (fst s) \<Longrightarrow> refs_resolve (fst (run E evs s))" for s
  proof (induction evs arbitrary: s)
    case Nil
    then show ?case by simp
  next
    case (Cons ev evs)
    from Cons.prems have "refs_resolve (fst (step E ev s))" by (rule refs_resolve_step)
    then have "refs_resolve (fst (run E evs (step E ev s)))" by (rule Cons.IH)
    then show ?case by simp
  qed
  have "refs_resolve (fst (HistoryTracker_init, r))" by (simp add: refs_resolve_init)
  then show ?thesis by (rule kept)
qed

text \<open>
  A run with a logged table, a change of the live table, a revert and a log without a
  table.
\<close>

theorem reachable_refs_resolve_witness:
  "refs_resolve (fst (run example_env
      [LogChange ''Clean'' ''Dropped rows'' (Some 0), Mutate 0 big_df, RevertToVersion ''u'',
       LogChange ''Note'' ''Nothing stored'' None]
      (HistoryTracker_init, example_rt small_df))) \<and>
   map (\<lambda>e. map_of e ''snapshot_id'')
     (history (fst (run example_env
      [LogChange ''Clean'' ''Dropped rows'' (Some 0), Mutate 0 big_df, RevertToVersion ''u'',
       LogChange ''Note'' ''Nothing stored'' None]
      (HistoryTracker_init, example_rt small_df)))) = [Some ''uu'', None] \<and>
   map fst (snapshots (fst (run example_env
      [LogChange ''Clean'' ''Dropped rows'' (Some 0), Mutate 0 big_df, RevertToVersion ''u'',
       LogChange ''Note'' ''Nothing stored'' None]
      (HistoryTracker_init, example_rt small_df)))) = [''uu'']"
  using reachable_refs_resolve [of example_env
      "[LogChange ''Clean'' ''Dropped rows'' (Some 0), Mutate 0 big_df, RevertToVersion ''u'',
       LogChange ''Note'' ''Nothing stored'' None]" "example_rt small_df"]
  by (simp add: log_change_Some log_change_None HistoryTracker_init_def example_rt_def
        example_env_def mutate_def revert_to_version_def get_snapshot_def df_copy_def)

text \<open>
  C3 as stated fails after \<^verbatim>\<open>import_history\<close>, which restores the entries and empties
  the snapshot dict ("Snapshots are not imported"): exporting the history of a tracker
  with one logged table and importing it again leaves an entry whose \<^verbatim>\<open>snapshot_id\<close>
  resolves to nothing.
\<close>

theorem import_history_leaves_dangling_refs:
  "\<not> refs_resolve
       (import_history (export_history (fst (logged_once small_df))) (fst (logged_once small_df)))"
  by (simp add: refs_resolve_def import_history_def export_history_def logged_once_eq)

section \<open>C4: reverting to an entry gives the table that was logged\<close>

text \<open>
  C4. Let entry \<open>eid\<close> be logged with the table \<open>T\<close> in a state where \<open>tracker_ok\<close>
  holds, and let any allowed events other than \<^verbatim>\<open>clear_history\<close> follow: further
  \<^verbatim>\<open>log_change\<close> calls, in-place changes of the live table or of any other object outside
  the snapshot dict, new DataFrames, reverts. Then \<^verbatim>\<open>revert_to_version(eid)\<close> returns a
  table whose content is the content \<open>T\<close> had when \<open>eid\<close> was logged. The values of
  \<^verbatim>\<open>uuid4\<close> are taken to be pairwise distinct.
\<close>

theorem revert_returns_logged_table:
  assumes "inj (uuid4_values E)" and "tracker_ok E t r" and "T < length (heap r)"
    and "log_change E action description (Some T) t r = (eid, t1, r1)"
    and "admissible E later (t1, r1)" and "ClearHistory \<notin> set later"
    and "run E later (t1, r1) = (t2, r2)"
  shows "\<exists>c r3. revert_to_version eid t2 r2 = Inr (Some c, r3) \<and> heap r3 ! c = heap r ! T"
proof -
  from assms(1-4) have h1: "holds_snapshot t1 r1 eid (heap r ! T)"
    by (rule holds_snapshot_after_log_change)
  from assms(2,4) have ok: "tracker_ok E t1 r1" by (rule tracker_ok_log_change)
  from assms(1) ok h1 assms(5-7) have "holds_snapshot t2 r2 eid (heap r ! T)"
    by (rule holds_snapshot_run)
  from holds_snapshot_revert [OF this] show ?thesis by simp
qed

text \<open>
  After the log, the live table is overwritten, logged again, and a new table is built;
  the revert to the first entry still returns the first content.
\<close>

theorem revert_returns_logged_table_witness:
  "inj (uuid4_values example_env) \<and>
   tracker_ok example_env HistoryTracker_init (example_rt small_df) \<and>
   admissible example_env
     [Mutate 0 big_df, LogChange ''Clean'' ''Dropped rows'' (Some 0), NewFrame big_df]
     (logged_once small_df) \<and>
   revert_to_version ''u''
     (fst (run example_env
        [Mutate 0 big_df, LogChange ''Clean'' ''Dropped rows'' (Some 0), NewFrame big_df]
        (logged_once small_df)))
     (snd (run example_env
        [Mutate 0 big_df, LogChange ''Clean'' ''Dropped rows'' (Some 0), NewFrame big_df]
        (logged_once small_df))) =
     Inr (Some 4, \<lparr>heap = [big_df, small_df, big_df, big_df, small_df],
                    uuid_calls = 4, clock_reads = 2\<rparr>)"
proof -
  let ?later = "[Mutate 0 big_df, LogChange ''Clean'' ''Dropped rows'' (Some 0), NewFrame big_df]"
  let ?s2 = "run example_env ?later (logged_once small_df)"
  have T: "0 < length (heap (example_rt small_df))" by (simp add: example_rt_def)
  have ad: "admissible example_env ?later (fst (logged_once small_df), snd (logged_once small_df))"
    by (simp add: logged_once_eq mutate_def log_change_Some)
  have nc: "ClearHistory \<notin> set ?later" by simp
  have rn: "run example_env ?later (fst (logged_once small_df), snd (logged_once small_df)) =
              (fst ?s2, snd ?s2)" by simp
  from revert_returns_logged_table
         [OF example_uuid4_inj tracker_ok_init T logged_once_log_change ad nc rn]
  obtain c r3 where "revert_to_version ''u'' (fst ?s2) (snd ?s2) = Inr (Some c, r3)" by blast
  then have "revert_to_version ''u'' (fst ?s2) (snd ?s2) =
     Inr (Some 4, \<lparr>heap = [big_df, small_df, big_df, big_df, small_df],
                    uuid_calls = 4, clock_reads = 2\<rparr>)"
    by (simp add: logged_once_eq mutate_def log_change_Some new_frame_def revert_to_version_def
          get_snapshot_def df_copy_def example_env_def eval_nat_numeral)
  with ad show ?thesis by (simp add: example_uuid4_inj tracker_ok_init)
qed

section \<open>C5: reverting to the entry of a revert\<close>

text \<open>
  C5. After a successful revert through the route, a second revert to the entry that the
  first one appended (the last entry of the ledger) succeeds too, and the current table
  after it has the content of the current table after the first. The values of
  \<^verbatim>\<open>uuid4\<close> are taken to be pairwise distinct and non-empty, and the state before the
  first revert satisfies \<open>tracker_ok\<close>.
\<close>

theorem revert_to_own_revert_entry:
  assumes "inj (uuid4_values E)" and "\<forall>k. uuid4_values E k \<noteq> []"
    and "HISTORY_TRACKER app = Some t" and "tracker_ok E t (rt app)"
    and "revert_to_history_version E request app = Inr ((body, 200), app1)"
    and "HISTORY_TRACKER app1 = Some t1"
    and "map_of (last (get_history t1)) ''id'' = Some rid"
  shows "\<exists>app2 a1 a2.
           revert_to_history_version E (Some rid) app1 =
             Inr (([(''status'', ''success''),
                    (''message'', ''Successfully reverted to the selected state.'')], 200), app2) \<and>
           MAIN_DF app1 = Some a1 \<and> MAIN_DF app2 = Some a2 \<and>
           heap (rt app2) ! a2 = heap (rt app1) ! a1"
proof -
  from route_successD [OF assms(5)] assms(3,6) obtain df hid c r1 eid r2 where
    rv: "revert_to_version hid t (rt app) = Inr (Some c, r1)" and
    lg: "log_change E ''Revert'' ''Reverted to state from an earlier action.'' (Some c) t r1 =
           (eid, t1, r2)" and
    app1: "app1 = app\<lparr>rt := r2, MAIN_DF := Some c, HISTORY_TRACKER := Some t1\<rparr>"
    by auto
  from revert_to_version_Some [OF rv] obtain a where
    c: "c = length (heap (rt app))" and r1: "r1 = (rt app)\<lparr>heap := heap (rt app) @ [heap (rt app) ! a]\<rparr>"
    by blast
  from assms(4) have ok1: "tracker_ok E t r1" by (rule tracker_ok_mono) (simp_all add: r1)
  have c1: "c < length (heap r1)" by (simp add: c r1)
  from assms(1) ok1 c1 lg have hs: "holds_snapshot t1 r2 eid (heap r1 ! c)"
    by (rule holds_snapshot_after_log_change)
  from log_change_facts [OF lg] obtain e where
    eid: "eid = uuid4_values E (uuid_calls r1)" and
    e: "history t1 = history t @ [e]" "map_of e ''id'' = Some eid" by blast
  from e assms(7) have rid: "rid = eid" by (simp add: get_history_def)
  from eid assms(2) have ne: "eid \<noteq> []" by simp
  from lg have h2: "heap r2 = heap r1 @ [heap r1 ! c]" by (auto simp: log_change_Some)
  let ?r3 = "r2\<lparr>heap := heap r2 @ [heap r1 ! c]\<rparr>"
  have rv2: "revert_to_version eid t1 (rt app1) = Inr (Some (length (heap r2)), ?r3)"
    using holds_snapshot_revert [OF hs] by (simp add: app1)
  obtain eid2 t2 r4 where lg2:
    "log_change E ''Revert'' ''Reverted to state from an earlier action.''
       (Some (length (heap r2))) t1 ?r3 = (eid2, t2, r4)"
    by (cases "log_change E ''Revert'' ''Reverted to state from an earlier action.''
       (Some (length (heap r2))) t1 ?r3")
  then have h4: "heap r4 = heap r2 @ [heap r1 ! c] @ [heap r1 ! c]"
    by (auto simp: log_change_Some)
  have t1: "HISTORY_TRACKER app1 = Some t1" and m1: "MAIN_DF app1 = Some c"
    by (simp_all add: app1)
  from route_successI [OF t1 m1 ne rv2 lg2]
  have "revert_to_history_version E (Some rid) app1 =
           Inr (([(''status'', ''success''),
                  (''message'', ''Successfully reverted to the selected state.'')], 200),
                app1\<lparr>rt := r4, MAIN_DF := Some (length (heap r2)), HISTORY_TRACKER := Some t2\<rparr>)"
    by (simp add: rid)
  moreover have "heap r4 ! length (heap r2) = heap (rt app1) ! c"
    using c1 by (simp add: h4 app1 h2 nth_append)
  ultimately show ?thesis using m1 by auto
qed

text \<open>
  Two reverts in a row on the tracker with one logged change: the current table is
  object 2 after the first and object 4 after the second, both with the logged content.
\<close>

theorem revert_to_own_revert_entry_witness:
  "map_sum id (\<lambda>p. (fst p, MAIN_DF (snd p), map_option (\<lambda>a. heap (rt (snd p)) ! a) (MAIN_DF (snd p))))
     (revert_to_history_version example_env (Some ''u'') (example_app small_df)) =
     Inr (([(''status'', ''success''),
            (''message'', ''Successfully reverted to the selected state.'')], 200),
          Some 2, Some small_df) \<and>
   map_sum id (\<lambda>p. (fst p, MAIN_DF (snd p), map_option (\<lambda>a. heap (rt (snd p)) ! a) (MAIN_DF (snd p))))
     (case revert_to_history_version example_env (Some ''u'') (example_app small_df) of
        Inl err \<Rightarrow> Inl err
      | Inr (resp, app1) \<Rightarrow> revert_to_history_version example_env (Some ''uuu'') app1) =
     Inr (([(''status'', ''success''),
            (''message'', ''Successfully reverted to the selected state.'')], 200),
          Some 4, Some small_df)"
proof -
  let ?app = "example_app small_df"
  obtain app1 where a: "revert_to_history_version example_env (Some ''u'') ?app =
      Inr (([(''status'', ''success''),
            (''message'', ''Successfully reverted to the selected state.'')], 200), app1)"
    and t1: "HISTORY_TRACKER app1 = Some
      \<lparr>history = [[(''id'', ''u''), (''timestamp'', ''2024-01-01T00:00:00''),
                    (''action'', ''Upload''), (''description'', ''Loaded a file''),
                    (''snapshot_id'', ''uu'')],
                   [(''id'', ''uuu''), (''timestamp'', ''2024-01-01T00:00:00''),
                    (''action'', ''Revert''), (''description'', ''Reverted to state from an earlier action.''),
                    (''snapshot_id'', ''uuuu'')]],
              snapshots = [(''uu'', 1), (''uuuu'', 3)]\<rparr>"
    and m1: "MAIN_DF app1 = Some 2"
    and h1: "heap (rt app1) = [small_df, small_df, small_df, small_df]"
    by (simp add: revert_to_history_version_def example_app_def logged_once_eq log_change_Some
          revert_to_version_def get_snapshot_def df_copy_def example_env_def eval_nat_numeral)
  have ne: "\<forall>k. uuid4_values example_env k \<noteq> []" by (simp add: example_env_def)
  have tr: "HISTORY_TRACKER ?app = Some (fst (logged_once small_df))" by (simp add: example_app_def)
  have "tracker_ok example_env (fst (logged_once small_df)) (snd (logged_once small_df))"
    using tracker_ok_log_change [OF tracker_ok_init logged_once_log_change] .
  then have ok: "tracker_ok example_env (fst (logged_once small_df)) (rt ?app)"
    by (simp add: example_app_def)
  have rid: "map_of (last (get_history
      \<lparr>history = [[(''id'', ''u''), (''timestamp'', ''2024-01-01T00:00:00''),
                    (''action'', ''Upload''), (''description'', ''Loaded a file''),
                    (''snapshot_id'', ''uu'')],
                   [(''id'', ''uuu''), (''timestamp'', ''2024-01-01T00:00:00''),
                    (''action'', ''Revert''), (''description'', ''Reverted to state from an earlier action.''),
                    (''snapshot_id'', ''uuuu'')]],
              snapshots = [(''uu'', 1), (''uuuu'', 3)]\<rparr>)) ''id'' = Some ''uuu''"
    by (simp add: get_history_def)
  from revert_to_own_revert_entry [OF example_uuid4_inj ne tr ok a t1 rid]
  obtain app2 a2 where b: "revert_to_history_version example_env (Some ''uuu'') app1 =
             Inr (([(''status'', ''success''),
                    (''message'', ''Successfully reverted to the selected state.'')], 200), app2)"
    and m2: "MAIN_DF app2 = Some a2" and eq: "heap (rt app2) ! a2 = heap (rt app1) ! 2"
    using m1 by auto
  from b t1 m1 h1 m2 have "a2 = 4"
    by (auto simp: revert_to_history_version_def revert_to_version_def get_snapshot_def
          df_copy_def log_change_Some split: if_splits)
  with a b m1 h1 m2 eq show ?thesis by (simp add: eval_nat_numeral)
qed

section \<open>C6: a revert appends to the ledger\<close>

text \<open>
  C6. When the route answers with status 200, the ledger after it is the ledger before it
  with one entry appended, and the action of that entry is "Revert".
\<close>

theorem revert_route_appends_one_entry:
  assumes "revert_to_history_version E request_id app = Inr ((body, 200), app')"
  shows "\<exists>t t' e. HISTORY_TRACKER app = Some t \<and> HISTORY_TRACKER app' = Some t' \<and>
           get_history t' = get_history t @ [e] \<and>
           length (get_history t') = Suc (length (get_history t)) \<and>
           map_of e ''action'' = Some ''Revert''"
  using assms
  by (auto simp: revert_to_history_version_def get_history_def log_change_Some
           split: option.splits if_splits sum.splits prod.splits)

text \<open>
  The successful revert on the tracker with one logged change.
\<close>

theorem revert_route_appends_one_entry_witness:
  "\<exists>app'. revert_to_history_version example_env (Some ''u'') (example_app small_df) =
            Inr (([(''status'', ''success''),
                   (''message'', ''Successfully reverted to the selected state.'')], 200), app') \<and>
          (\<exists>e. map_option get_history (HISTORY_TRACKER app') =
                  Some ([[(''id'', ''u''), (''timestamp'', ''2024-01-01T00:00:00''),
                          (''action'', ''Upload''), (''description'', ''Loaded a file''),
                          (''snapshot_id'', ''uu'')]] @ [e]) \<and>
               map_of e ''action'' = Some ''Revert'')"
proof -
  obtain app' where a: "revert_to_history_version example_env (Some ''u'') (example_app small_df) =
            Inr (([(''status'', ''success''),
                   (''message'', ''Successfully reverted to the selected state.'')], 200), app')"
    by (simp add: revert_to_history_version_def example_app_def logged_once_eq log_change_Some
          revert_to_version_def get_snapshot_def df_copy_def)
  from revert_route_appends_one_entry [OF a]
  show ?thesis using a by (auto simp: example_app_def logged_once_eq get_history_def)
qed

section \<open>C7: the ledger after N logged changes\<close>

text \<open>
  C7. After \<open>N\<close> \<^verbatim>\<open>log_change\<close> calls on a new tracker, \<^verbatim>\<open>get_history\<close> returns \<open>N\<close>
  entries; the i-th entry has the id that the i-th call returned and the action and
  description that the i-th call was given; the ids are pairwise distinct; and every
  \<^verbatim>\<open>log_change\<close> call, in any state, makes the ledger one entry longer. The values of
  \<^verbatim>\<open>uuid4\<close> are taken to be pairwise distinct.
\<close>

theorem log_changes_on_fresh_tracker:
  assumes "inj (uuid4_values E)"
    and "log_changes E calls HistoryTracker_init r = (ids, t, r')"
  shows "length (get_history t) = length calls \<and>
         map (\<lambda>e. map_of e ''id'') (get_history t) = map Some ids \<and>
         map (\<lambda>e. map_of e ''action'') (get_history t) = map (\<lambda>c. Some (fst c)) calls \<and>
         map (\<lambda>e. map_of e ''description'') (get_history t) = map (\<lambda>c. Some (fst (snd c))) calls \<and>
         distinct ids \<and>
         (\<forall>a d ds t0 r0. length (get_history (fst (snd (log_change E a d ds t0 r0)))) =
                          Suc (length (get_history t0)))"
proof -
  from log_changes_history [OF assms(2)] obtain news where
    n: "history t = news" "map (\<lambda>e. map_of e ''id'') news = map Some ids"
       "map (\<lambda>e. map_of e ''action'') news = map (\<lambda>c. Some (fst c)) calls"
       "map (\<lambda>e. map_of e ''description'') news = map (\<lambda>c. Some (fst (snd c))) calls"
    by (auto simp: HistoryTracker_init_def)
  from n(3) have len: "length news = length calls" by (rule map_eq_imp_length_eq)
  have grow: "\<forall>a d ds t0 r0. length (get_history (fst (snd (log_change E a d ds t0 r0)))) =
                          Suc (length (get_history t0))"
  proof (intro allI)
    fix a d ds t0 r0
    show "length (get_history (fst (snd (log_change E a d ds t0 r0)))) = Suc (length (get_history t0))"
      by (cases ds) (simp_all add: log_change_None log_change_Some get_history_def)
  qed
  from n len grow log_changes_distinct [OF assms] show ?thesis
    by (simp add: get_history_def)
qed

text \<open>
  Three calls, the second without a table.
\<close>

theorem log_changes_on_fresh_tracker_witness:
  "inj (uuid4_values example_env) \<and>
   log_changes example_env
     [(''A'', ''first'', Some 0), (''B'', ''second'', None), (''C'', ''third'', Some 0)]
     HistoryTracker_init (example_rt small_df) =
     ([''u'', ''uuu'', ''uuuu''],
      \<lparr>history =
         [[(''id'', ''u''), (''timestamp'', ''2024-01-01T00:00:00''), (''action'', ''A''),
           (''description'', ''first''), (''snapshot_id'', ''uu'')],
          [(''id'', ''uuu''), (''timestamp'', ''2024-01-01T00:00:00''), (''action'', ''B''),
           (''description'', ''second'')],
          [(''id'', ''uuuu''), (''timestamp'', ''2024-01-01T00:00:00''), (''action'', ''C''),
           (''description'', ''third''), (''snapshot_id'', ''uuuuu'')]],
       snapshots = [(''uu'', 1), (''uuuuu'', 2)]\<rparr>,
      \<lparr>heap = [small_df, small_df, small_df], uuid_calls = 5, clock_reads = 3\<rparr>) \<and>
   distinct [''u'', ''uuu'', ''uuuu'']"
proof -
  have a: "log_changes example_env
     [(''A'', ''first'', Some 0), (''B'', ''second'', None), (''C'', ''third'', Some 0)]
     HistoryTracker_init (example_rt small_df) =
     ([''u'', ''uuu'', ''uuuu''],
      \<lparr>history =
         [[(''id'', ''u''), (''timestamp'', ''2024-01-01T00:00:00''), (''action'', ''A''),
           (''description'', ''first''), (''snapshot_id'', ''uu'')],
          [(''id'', ''uuu''), (''timestamp'', ''2024-01-01T00:00:00''), (''action'', ''B''),
           (''description'', ''second'')],
          [(''id'', ''uuuu''), (''timestamp'', ''2024-01-01T00:00:00''), (''action'', ''C''),
           (''description'', ''third''), (''snapshot_id'', ''uuuuu'')]],
       snapshots = [(''uu'', 1), (''uuuuu'', 2)]\<rparr>,
      \<lparr>heap = [small_df, small_df, small_df], uuid_calls = 5, clock_reads = 3\<rparr>)"
    by (simp add: log_change_Some log_change_None HistoryTracker_init_def example_rt_def
          example_env_def eval_nat_numeral)
  from log_changes_on_fresh_tracker [OF example_uuid4_inj a]
  have "distinct [''u'', ''uuu'', ''uuuu'']" by blast
  with a example_uuid4_inj show ?thesis by blast
qed

section \<open>C8: when a revert finds nothing\<close>

text \<open>
  C8, as the code has it. On a ledger whose entries all have an \<^verbatim>\<open>'id'\<close>,
  \<^verbatim>\<open>revert_to_version\<close> returns \<^verbatim>\<open>None\<close> exactly when no entry has the id, or the first
  entry with the id has no \<^verbatim>\<open>snapshot_id\<close>, or its \<^verbatim>\<open>snapshot_id\<close> is not a key of the
  snapshot dict. It then changes nothing, and the route answers 404 and leaves the ledger
  and the current table as they were.
\<close>

theorem revert_not_found_iff:
  assumes "\<forall>e \<in> set (history t). map_of e ''id'' \<noteq> None"
  shows "((\<exists>r'. revert_to_version history_id t r = Inr (None, r')) \<longleftrightarrow>
           (case List.find (\<lambda>e. map_of e ''id'' = Some history_id) (history t) of
              None \<Rightarrow> True
            | Some e \<Rightarrow> (case map_of e ''snapshot_id'' of
                           None \<Rightarrow> True
                         | Some sid \<Rightarrow> get_snapshot sid t = None))) \<and>
         (\<forall>r'. revert_to_version history_id t r = Inr (None, r') \<longrightarrow> r' = r) \<and>
         (\<forall>app df r'. HISTORY_TRACKER app = Some t \<and> MAIN_DF app = Some df \<and> rt app = r \<and>
             history_id \<noteq> [] \<and> revert_to_version history_id t r = Inr (None, r') \<longrightarrow>
             revert_to_history_version E (Some history_id) app =
               Inr (([(''status'', ''error''), (''message'', ''History snapshot not found.'')], 404),
                    app))"
proof (intro conjI allI impI)
  show "(\<exists>r'. revert_to_version history_id t r = Inr (None, r')) \<longleftrightarrow>
           (case List.find (\<lambda>e. map_of e ''id'' = Some history_id) (history t) of
              None \<Rightarrow> True
            | Some e \<Rightarrow> (case map_of e ''snapshot_id'' of
                           None \<Rightarrow> True
                         | Some sid \<Rightarrow> get_snapshot sid t = None))"
    using assms
    by (auto simp: revert_to_version_def find_target_entry_find df_copy_def split: option.splits)
next
  fix r' assume "revert_to_version history_id t r = Inr (None, r')"
  then show "r' = r" by (auto dest: revert_to_version_result)
next
  fix app :: app_state and df r'
  assume a: "HISTORY_TRACKER app = Some t \<and> MAIN_DF app = Some df \<and> rt app = r \<and>
             history_id \<noteq> [] \<and> revert_to_version history_id t r = Inr (None, r')"
  then have "r' = rt app" by (auto dest: revert_to_version_result)
  with a show "revert_to_history_version E (Some history_id) app =
               Inr (([(''status'', ''error''), (''message'', ''History snapshot not found.'')], 404),
                    app)"
    by (simp add: revert_to_history_version_def)
qed

text \<open>
  An id that no entry has.
\<close>

theorem revert_not_found_iff_witness:
  "map (\<lambda>e. map_of e ''id'') (history (fst (logged_once small_df))) = [Some ''u''] \<and>
   revert_to_version ''zz'' (fst (logged_once small_df)) (snd (logged_once small_df)) =
     Inr (None, snd (logged_once small_df))"
proof -
  have h: "\<forall>e \<in> set (history (fst (logged_once small_df))). map_of e ''id'' \<noteq> None"
    by (simp add: logged_once_eq)
  from revert_not_found_iff [OF h, of "''zz''" "snd (logged_once small_df)" example_env]
  have iff: "(\<exists>r'. revert_to_version ''zz'' (fst (logged_once small_df)) (snd (logged_once small_df)) =
            Inr (None, r')) \<longleftrightarrow>
        (case List.find (\<lambda>e. map_of e ''id'' = Some ''zz'') (history (fst (logged_once small_df))) of
              None \<Rightarrow> True
            | Some e \<Rightarrow> (case map_of e ''snapshot_id'' of
                           None \<Rightarrow> True
                         | Some sid \<Rightarrow> get_snapshot sid (fst (logged_once small_df)) = None))"
    and same: "\<forall>r'. revert_to_version ''zz'' (fst (logged_once small_df)) (snd (logged_once small_df)) =
            Inr (None, r') \<longrightarrow> r' = snd (logged_once small_df)"
    by blast+
  from iff obtain r' where
    "revert_to_version ''zz'' (fst (logged_once small_df)) (snd (logged_once small_df)) = Inr (None, r')"
    by (auto simp: logged_once_eq)
  with same have
    "revert_to_version ''zz'' (fst (logged_once small_df)) (snd (logged_once small_df)) =
       Inr (None, snd (logged_once small_df))" by blast
  then show ?thesis by (simp add: logged_once_eq)
qed

text \<open>
  C8 as stated fails: after exporting and importing the history of a tracker with one
  logged table, the entry with id \<^verbatim>\<open>u\<close> matches and carries a \<^verbatim>\<open>snapshot_id\<close>, and
  \<^verbatim>\<open>revert_to_version\<close> returns \<^verbatim>\<open>None\<close>.
\<close>

theorem revert_not_found_with_matching_snapshot_id:
  "revert_to_version ''u''
     (import_history (export_history (fst (logged_once small_df))) (fst (logged_once small_df)))
     (snd (logged_once small_df)) = Inr (None, snd (logged_once small_df)) \<and>
   map_option (\<lambda>e. map_of e ''snapshot_id'')
     (List.find (\<lambda>e. map_of e ''id'' = Some ''u'')
        (history (import_history (export_history (fst (logged_once small_df)))
                    (fst (logged_once small_df))))) = Some (Some ''uu'')"
  by (simp add: import_history_def export_history_def logged_once_eq revert_to_version_def
        get_snapshot_def)

section \<open>C9: logging without a table\<close>

text \<open>
  C9. \<^verbatim>\<open>log_change\<close> without a table returns (the model has no failing branch, as the
  code has no statement that can raise on this path); it appends one entry, which has the
  returned id, the given action and description and no \<^verbatim>\<open>snapshot_id\<close> key; the
  snapshot dict and all DataFrames stay as they were; and the returned id is the id of no
  earlier entry. For the last part the values of \<^verbatim>\<open>uuid4\<close> are taken to be pairwise
  distinct and the state to satisfy \<open>tracker_ok\<close>.
\<close>

theorem log_change_without_table:
  assumes "inj (uuid4_values E)" and "tracker_ok E t r"
    and "log_change E action description None t r = (eid, t', r')"
  shows "(\<exists>e. history t' = history t @ [e] \<and> map_of e ''id'' = Some eid \<and>
              map_of e ''action'' = Some action \<and> map_of e ''description'' = Some description \<and>
              ''snapshot_id'' \<notin> fst ` set e) \<and>
         snapshots t' = snapshots t \<and> heap r' = heap r \<and>
         (\<forall>e \<in> set (history t). map_of e ''id'' \<noteq> Some eid)"
proof -
  from assms(3) have eid: "eid = uuid4_values E (uuid_calls r)"
    and t': "t' = t\<lparr>history := history t @
           [[(''id'', eid), (''timestamp'', now_values E (clock_reads r)),
             (''action'', action), (''description'', description)]]\<rparr>"
    and r': "r' = r\<lparr>uuid_calls := Suc (uuid_calls r), clock_reads := Suc (clock_reads r)\<rparr>"
    by (auto simp: log_change_None)
  have fresh: "\<forall>e \<in> set (history t). map_of e ''id'' \<noteq> Some eid"
  proof
    fix e assume "e \<in> set (history t)"
    with assms(2) obtain k where k: "k < uuid_calls r" "map_of e ''id'' = Some (uuid4_values E k)"
      by (auto simp: tracker_ok_def)
    from k(1) assms(1) have "uuid4_values E k \<noteq> uuid4_values E (uuid_calls r)"
      by (auto dest: injD)
    with k(2) eid show "map_of e ''id'' \<noteq> Some eid" by simp
  qed
  from t' r' fresh show ?thesis by simp
qed

text \<open>
  The first call on a new tracker.
\<close>

theorem log_change_without_table_witness:
  "log_change example_env ''Note'' ''Nothing stored'' None HistoryTracker_init (example_rt small_df) =
     (''u'',
      \<lparr>history = [[(''id'', ''u''), (''timestamp'', ''2024-01-01T00:00:00''),
                   (''action'', ''Note''), (''description'', ''Nothing stored'')]],
       snapshots = []\<rparr>,
      \<lparr>heap = [small_df], uuid_calls = 1, clock_reads = 1\<rparr>) \<and>
   inj (uuid4_values example_env) \<and>
   tracker_ok example_env HistoryTracker_init (example_rt small_df)"
proof -
  have a: "log_change example_env ''Note'' ''Nothing stored'' None HistoryTracker_init
             (example_rt small_df) =
     (''u'',
      \<lparr>history = [[(''id'', ''u''), (''timestamp'', ''2024-01-01T00:00:00''),
                   (''action'', ''Note''), (''description'', ''Nothing stored'')]],
       snapshots = []\<rparr>,
      \<lparr>heap = [small_df], uuid_calls = 1, clock_reads = 1\<rparr>)"
    by (simp add: log_change_None HistoryTracker_init_def example_rt_def example_env_def)
  note log_change_without_table [OF example_uuid4_inj tracker_ok_init a]
  with a show ?thesis by (simp add: example_uuid4_inj tracker_ok_init)
qed

section \<open>C10: a dangling snapshot id\<close>

text \<open>
  C10. On a ledger whose entries all have an \<^verbatim>\<open>'id'\<close>: if the first entry with the given
  id carries a \<^verbatim>\<open>snapshot_id\<close> that is not a key of the snapshot dict,
  \<^verbatim>\<open>revert_to_version\<close> returns \<^verbatim>\<open>None\<close>, with no error and no change.
\<close>

theorem dangling_snapshot_id_gives_None:
  assumes "\<forall>e \<in> set (history t). map_of e ''id'' \<noteq> None"
    and "List.find (\<lambda>e. map_of e ''id'' = Some history_id) (history t) = Some e"
    and "map_of e ''snapshot_id'' = Some sid"
    and "get_snapshot sid t = None"
  shows "revert_to_version history_id t r = Inr (None, r)"
  using assms by (simp add: revert_to_version_def find_target_entry_find)

text \<open>
  The history of a tracker with one logged table, exported and imported again.
\<close>

theorem dangling_snapshot_id_gives_None_witness:
  "revert_to_version ''u''
     (import_history (export_history (fst (logged_once small_df))) (fst (logged_once small_df)))
     (snd (logged_once small_df)) = Inr (None, snd (logged_once small_df))"
proof -
  let ?t = "import_history (export_history (fst (logged_once small_df))) (fst (logged_once small_df))"
  have t: "?t = \<lparr>history = [[(''id'', ''u''), (''timestamp'', ''2024-01-01T00:00:00''),
                    (''action'', ''Upload''), (''description'', ''Loaded a file''),
                    (''snapshot_id'', ''uu'')]], snapshots = []\<rparr>"
    by (simp add: import_history_def export_history_def logged_once_eq)
  show ?thesis
    by (rule dangling_snapshot_id_gives_None
          [where sid = "''uu''" and e = "[(''id'', ''u''), (''timestamp'', ''2024-01-01T00:00:00''),
                    (''action'', ''Upload''), (''description'', ''Loaded a file''),
                    (''snapshot_id'', ''uu'')]"])
       (simp_all add: t get_snapshot_def)
qed

end
